theory Spec2Isabelle
  imports Complex_Main
begin

section \<open>Python values and exceptions\<close>

text \<open>
  The values the router API hands back for a field (librouteros decodes words into
  \<open>int\<close>, \<open>bool\<close> or \<open>str\<close>), and Python's \<open>None\<close>.
\<close>

datatype val = I int | S string | B bool | NoneV

text \<open>
  The exceptions the modelled code can raise. \<open>ConfigError\<close> is the error the
  specification gives to a malformed threshold string; the others are Python's own.
\<close>

datatype error =
    ValueError string
  | TypeError string
  | KeyError string
  | IndexError
  | AttributeError string
  | ConfigError string

text \<open>The message of an exception, as \<open>str(exc)\<close> gives it.\<close>

fun error_message :: "error \<Rightarrow> string" where
  "error_message (ValueError m) = m"
| "error_message (TypeError m) = m"
| "error_message (KeyError k) = k"
| "error_message IndexError = ''tuple index out of range''"
| "error_message (AttributeError m) = m"
| "error_message (ConfigError m) = m"

text \<open>
  Sequencing of fallible steps: the first exception aborts what follows, as a Python
  \<open>raise\<close> does.
\<close>

definition and_then :: "error + 'a \<Rightarrow> ('a \<Rightarrow> error + 'b) \<Rightarrow> error + 'b" where
  "and_then r f = (case r of Inl e \<Rightarrow> Inl e | Inr x \<Rightarrow> f x)"

subsection \<open>Digits, integers and decimal numerals\<close>

text \<open>
  Strings are byte lists, so \<open>\d\<close> is modelled on the ASCII digits only (Python's
  \<open>\d\<close> on \<open>str\<close> also accepts other Unicode decimal digits).
\<close>

definition is_digit :: "char \<Rightarrow> bool" where
  "is_digit c = (c \<in> set ''0123456789'')"

definition digit_val :: "char \<Rightarrow> nat" where
  "digit_val c = of_char c - 48"

text \<open>\<open>int(ds)\<close> on a string of digits.\<close>

definition py_int :: "string \<Rightarrow> nat" where
  "py_int ds = foldl (\<lambda>n c. 10 * n + digit_val c) 0 ds"

definition digit_char :: "nat \<Rightarrow> char" where
  "digit_char d = char_of (48 + d)"

text \<open>\<open>str(n)\<close> for a natural number and for an integer.\<close>

function str_nat :: "nat \<Rightarrow> string" where
  "str_nat n = (if n < 10 then [digit_char n] else str_nat (n div 10) @ [digit_char (n mod 10)])"
  by pat_completeness auto
termination
  by (relation "measure id") auto

definition str_int :: "int \<Rightarrow> string" where
  "str_int i = (if i < 0 then CHR ''-'' # str_nat (nat (- i)) else str_nat (nat i))"

text \<open>
  Python's \<open>float\<close> is idealised as an exact rational: the model computes
  \<open>float(total) * (float(v) / 100)\<close> without rounding. The two agree whenever the
  IEEE double results are exact, which is the case at every concrete input evaluated
  below (\<open>1000 * 0.5\<close>, \<open>1000 * 0.8\<close>, \<open>1e9 * 0.7\<close>, \<open>1e9 * 0.9\<close> all round to the
  integer shown). \<open>str\<close> of a float is modelled as positional decimal notation with at
  least one fractional digit and at most 17 of them; Python switches to exponent notation
  from \<open>1e16\<close> on, which the model does not.
\<close>

type_synonym pyfloat = rat

fun frac_digits :: "nat \<Rightarrow> rat \<Rightarrow> string" where
  "frac_digits 0 r = []"
| "frac_digits (Suc k) r =
     (if r = 0 then []
      else (let d = nat \<lfloor>r * 10\<rfloor> in digit_char d # frac_digits k (r * 10 - of_nat d)))"

definition str_float :: "pyfloat \<Rightarrow> string" where
  "str_float q =
     (let a = \<bar>q\<bar>; n = nat \<lfloor>a\<rfloor>; f = a - of_nat n
      in (if q < 0 then ''-'' else []) @ str_nat n @ ''.'' @
         (if f = 0 then ''0'' else frac_digits 17 f))"

text \<open>
  \<open>float(s)\<close> on a string: an optional sign, digits, and an optional fraction, with a
  digit on at least one side of the point. The other spellings Python accepts (an
  exponent, \<open>inf\<close>, \<open>nan\<close>, surrounding blanks, underscores) are not modelled and count
  as not numeric.
\<close>

definition parse_unsigned :: "string \<Rightarrow> pyfloat option" where
  "parse_unsigned s =
     (let ip = takeWhile is_digit s in
      case dropWhile is_digit s of
        [] \<Rightarrow> if ip = [] then None else Some (of_nat (py_int ip))
      | c # fp \<Rightarrow>
          if c = CHR ''.'' \<and> list_all is_digit fp \<and> \<not> (ip = [] \<and> fp = [])
          then Some (of_nat (py_int ip) + of_nat (py_int fp) / 10 ^ length fp)
          else None)"

definition parse_float :: "string \<Rightarrow> pyfloat option" where
  "parse_float s =
     (case s of
        [] \<Rightarrow> None
      | c # t \<Rightarrow>
          if c = CHR ''-'' then map_option uminus (parse_unsigned t)
          else if c = CHR ''+'' then parse_unsigned t
          else parse_unsigned s)"

text \<open>\<open>float(x)\<close> on a value.\<close>

fun py_float :: "val \<Rightarrow> error + pyfloat" where
  "py_float (I n) = Inr (of_int n)"
| "py_float (B b) = Inr (if b then 1 else 0)"
| "py_float (S s) =
     (case parse_float s of
        None \<Rightarrow> Inl (ValueError (''could not convert string to float: '' @ s))
      | Some q \<Rightarrow> Inr q)"
| "py_float NoneV = Inl (TypeError ''float() argument must be a string or a real number'')"

text \<open>\<open>str(x)\<close> on a value.\<close>

fun py_str :: "val \<Rightarrow> string" where
  "py_str (I n) = str_int n"
| "py_str (S s) = s"
| "py_str (B b) = (if b then ''True'' else ''False'')"
| "py_str NoneV = ''None''"

section \<open>Range\<close>

text \<open>
  Modelled from the spec: \<open>nagiosplugin.Range\<close> is a class of the plugin library, which
  is not among the sources; the definitions of this section follow section 4.1 of the
  specification. A range is \<open>{start: number or -infinity, end: number or +infinity,
  invert: bool}\<close>; \<open>None\<close> stands for the infinite bound.
\<close>

record Range =
  r_start :: "pyfloat option"
  r_end :: "pyfloat option"
  r_invert :: bool

definition malformed :: "string \<Rightarrow> error" where
  "malformed spec = ConfigError (''malformed threshold: '' @ spec)"

text \<open>A bound: empty or \<open>~\<close> is the infinity of its side, anything else must be a number.\<close>

definition parse_bound :: "string \<Rightarrow> string \<Rightarrow> error + pyfloat option" where
  "parse_bound spec b =
     (if b = [] \<or> b = ''~'' then Inr None
      else case parse_float b of None \<Rightarrow> Inl (malformed spec) | Some q \<Rightarrow> Inr (Some q))"

text \<open>Both bounds finite and \<open>M < N\<close> is malformed.\<close>

definition make_range :: "string \<Rightarrow> pyfloat option \<Rightarrow> pyfloat option \<Rightarrow> bool \<Rightarrow> error + Range" where
  "make_range spec lo hi inverted =
     (case (lo, hi) of
        (Some n, Some m) \<Rightarrow>
          if m < n then Inl (malformed spec)
          else Inr \<lparr>r_start = lo, r_end = hi, r_invert = inverted\<rparr>
      | _ \<Rightarrow> Inr \<lparr>r_start = lo, r_end = hi, r_invert = inverted\<rparr>)"

text \<open>
  The grammar: the empty spec never alerts; a leading \<open>@\<close> inverts; \<open>N\<close> is \<open>0:N\<close>;
  otherwise the spec is split at its first colon into the two bounds.
\<close>

definition Range_parse :: "string \<Rightarrow> error + Range" where
  "Range_parse spec =
     (if spec = [] then Inr \<lparr>r_start = None, r_end = None, r_invert = False\<rparr>
      else
        let inverted = (hd spec = CHR ''@'');
            body = (if inverted then tl spec else spec)
        in if CHR '':'' \<in> set body
           then
             and_then (parse_bound spec (takeWhile (\<lambda>c. c \<noteq> CHR '':'') body)) (\<lambda>lo.
             and_then (parse_bound spec (tl (dropWhile (\<lambda>c. c \<noteq> CHR '':'') body))) (\<lambda>hi.
             make_range spec lo hi inverted))
           else
             (case parse_float body of
                None \<Rightarrow> Inl (malformed spec)
              | Some n \<Rightarrow> make_range spec (Some 0) (Some n) inverted))"

text \<open>
  The containment test (the value lies between the bounds) and \<open>evaluate\<close>, whose
  result \<open>True\<close> means that the value is in the alert zone: outside the bounds for a
  plain range, inside them for an inverted one.
\<close>

definition Range_contains :: "Range \<Rightarrow> pyfloat \<Rightarrow> bool" where
  "Range_contains r v =
     ((case r_start r of None \<Rightarrow> True | Some n \<Rightarrow> n \<le> v) \<and>
      (case r_end r of None \<Rightarrow> True | Some m \<Rightarrow> v \<le> m))"

definition Range_evaluate :: "Range \<Rightarrow> pyfloat \<Rightarrow> bool" where
  "Range_evaluate r v = (if r_invert r then Range_contains r v else \<not> Range_contains r v)"

section \<open>Metrics, results and performance data\<close>

text \<open>
  \<open>nagiosplugin.Metric(name, value, uom, min, max)\<close> as the probes build it; the arguments
  a probe leaves out are \<open>None\<close>.
\<close>

record Metric =
  m_name :: string
  m_value :: val
  m_uom :: "string option"
  m_min :: "val option"
  m_max :: "val option"

datatype state = Ok | Warn | Critical | Unknown

text \<open>
  Modelled from the spec: \<open>Result\<close> and \<open>Performance\<close> are classes of the plugin
  library; section 3 gives a result a status and the metric it is about, section 4.3 gives
  a performance datum the value, unit, thresholds, minimum and maximum. The hint text of a
  result is composed inside the library and is left out.
\<close>

record Result =
  res_state :: state
  res_metric :: Metric

record Performance =
  p_label :: string
  p_value :: val
  p_uom :: "string option"
  p_warning :: "Range option"
  p_critical :: "Range option"
  p_min :: "val option"
  p_max :: "val option"

section \<open>ScalarContext\<close>

text \<open>
  Modelled from the spec: \<open>nagiosplugin.ScalarContext\<close> (section 4.3). \<open>evaluate\<close> is
  CRITICAL if the critical range alerts, else WARNING if the warning range alerts, else OK;
  an absent range never alerts. A value that is no number cannot be compared with a bound.
\<close>

definition alerts :: "Range option \<Rightarrow> pyfloat \<Rightarrow> bool" where
  "alerts r v = (case r of None \<Rightarrow> False | Some rng \<Rightarrow> Range_evaluate rng v)"

definition tier :: "Range option \<Rightarrow> Range option \<Rightarrow> pyfloat \<Rightarrow> state" where
  "tier w c v = (if alerts c v then Critical else if alerts w v then Warn else Ok)"

definition scalar_evaluate :: "Range option \<Rightarrow> Range option \<Rightarrow> Metric \<Rightarrow> error + Result" where
  "scalar_evaluate w c metric =
     (if w = None \<and> c = None then Inr \<lparr>res_state = Ok, res_metric = metric\<rparr>
      else and_then (py_float (m_value metric))
             (\<lambda>v. Inr \<lparr>res_state = tier w c v, res_metric = metric\<rparr>))"

definition scalar_performance :: "Range option \<Rightarrow> Range option \<Rightarrow> Metric \<Rightarrow> Performance" where
  "scalar_performance w c metric =
     \<lparr>p_label = m_name metric, p_value = m_value metric, p_uom = m_uom metric,
      p_warning = w, p_critical = c, p_min = m_min metric, p_max = m_max metric\<rparr>"

section \<open>ScalarPercentContext\<close>

text \<open>
  The resource object a context reads, as the map of its attributes.
  \<open>SystemMemoryResource\<close> has the one attribute \<open>memory_total\<close>, which is
  \<open>None\<close> until the probe has run. \<open>getattr\<close> raises on a name that is not there.
\<close>

type_synonym resource = "string \<rightharpoonup> val"

definition getattr :: "resource \<Rightarrow> string \<Rightarrow> error + val" where
  "getattr res attr =
     (case res attr of None \<Rightarrow> Inl (AttributeError attr) | Some v \<Rightarrow> Inr v)"

text \<open>
  The pattern \<open>(?P<value>\d+)(?P<unit>[%])\<close>. \<open>unit_class\<close> is its character
  class. \<open>regex_match s\<close> is a match that starts at the first character of \<open>s\<close>: the
  groups \<open>value\<close> and \<open>unit\<close>, and what follows the match. \<open>\d+\<close> is greedy, and a
  shorter run of digits is followed by a digit, never by a unit, so the only candidate is
  the longest run.
\<close>

definition unit_class :: "char list" where
  "unit_class = ''%''"

definition regex_match :: "string \<Rightarrow> (string \<times> char \<times> string) option" where
  "regex_match s =
     (let v = takeWhile is_digit s in
      if v = [] then None
      else (case dropWhile is_digit s of
              [] \<Rightarrow> None
            | u # rest \<Rightarrow> if u \<in> set unit_class then Some (v, u, rest) else None))"

text \<open>
  \<open>regex.sub(repl, s)\<close>: scan from the left; where the pattern matches, call \<open>repl\<close> on
  the groups, emit its result and go on after the match; elsewhere copy one character.
  An exception of \<open>repl\<close> ends the substitution.
\<close>

function regex_sub :: "(string \<Rightarrow> char \<Rightarrow> error + string) \<Rightarrow> string \<Rightarrow> error + string" where
  "regex_sub repl [] = Inr []"
| "regex_sub repl (c # cs) =
     (case regex_match (c # cs) of
        Some (v, u, rest) \<Rightarrow>
          and_then (repl v u) (\<lambda>t. and_then (regex_sub repl rest) (\<lambda>r. Inr (t @ r)))
      | None \<Rightarrow> and_then (regex_sub repl cs) (\<lambda>r. Inr (c # r)))"
  by pat_completeness auto
termination
proof (relation "measure (\<lambda>(repl, s). length s)")
  fix repl :: "string \<Rightarrow> char \<Rightarrow> error + string"
  fix c cs x2 v y u rest t
  assume m: "regex_match (c # cs) = Some x2" and x2: "(v, y) = x2" and y: "(u, rest) = y"
  from m x2 y have "dropWhile is_digit (c # cs) = u # rest"
    by (auto simp: regex_match_def Let_def split: if_splits list.splits)
  moreover have "length (dropWhile is_digit (c # cs)) \<le> length (c # cs)"
    by (rule length_dropWhile_le)
  ultimately show "((repl, rest), repl, c # cs) \<in> measure (\<lambda>(repl, s). length s)"
    by simp
qed auto

text \<open>
  The local function \<open>replace\<close> of \<open>_prepare_ranges\<close>, closed over \<open>total_value\<close>:
  a percentage becomes \<open>str(float(total_value) * (float(value) / 100))\<close>, any other unit
  raises.
\<close>

definition replace :: "val \<Rightarrow> string \<Rightarrow> char \<Rightarrow> error + string" where
  "replace total_value v u =
     (if u = CHR ''%'' then
        and_then (py_float total_value)
          (\<lambda>t. Inr (str_float (t * (of_nat (py_int v) / 100))))
      else Inl (ValueError ''Unable to convert type''))"

text \<open>\<open>regex.sub(replace, spec)\<close>; the spec is \<open>None\<close> when the option was left out.\<close>

definition sub_spec :: "val \<Rightarrow> string option \<Rightarrow> error + string" where
  "sub_spec total_value spec =
     (case spec of
        None \<Rightarrow> Inl (TypeError ''expected string or bytes-like object'')
      | Some s \<Rightarrow> regex_sub (replace total_value) s)"

text \<open>
  The object: \<open>raw_warning\<close> and \<open>raw_critical\<close> are the fields \<open>_warning\<close> and
  \<open>_critical\<close> (the specs as given), \<open>warning\<close> and \<open>critical\<close> the resolved ranges,
  \<open>None\<close> after construction.
\<close>

record ScalarPercentContext =
  raw_warning :: "string option"
  raw_critical :: "string option"
  total_name :: string
  warning :: "Range option"
  critical :: "Range option"

definition new_ScalarPercentContext :: "string \<Rightarrow> string option \<Rightarrow> string option \<Rightarrow> ScalarPercentContext" where
  "new_ScalarPercentContext tname w c =
     \<lparr>raw_warning = w, raw_critical = c, total_name = tname, warning = None, critical = None\<rparr>"

text \<open>
  \<open>_prepare_ranges\<close>. The state it works on is the context object and the lines written
  to standard output so far. It returns at once when both ranges are set; otherwise it
  reads the total, prints the two substituted specs, and stores the two ranges.
\<close>

definition prepare_ranges ::
  "ScalarPercentContext \<Rightarrow> resource \<Rightarrow> string list \<Rightarrow> error + (ScalarPercentContext \<times> string list)" where
  "prepare_ranges self res out =
     (if warning self \<noteq> None \<and> critical self \<noteq> None then Inr (self, out)
      else
        and_then (getattr res (total_name self)) (\<lambda>total_value.
        and_then (sub_spec total_value (raw_warning self)) (\<lambda>line1.
        and_then (sub_spec total_value (raw_critical self)) (\<lambda>line2.
        and_then (sub_spec total_value (raw_warning self)) (\<lambda>w.
        and_then (Range_parse w) (\<lambda>wr.
        and_then (sub_spec total_value (raw_critical self)) (\<lambda>c.
        and_then (Range_parse c) (\<lambda>cr.
        Inr (self\<lparr>warning := Some wr, critical := Some cr\<rparr>, out @ [line1, line2])))))))))"

text \<open>\<open>evaluate\<close> and \<open>performance\<close>: prepare the ranges, then do as the base class.\<close>

definition evaluate ::
  "ScalarPercentContext \<Rightarrow> Metric \<Rightarrow> resource \<Rightarrow> string list
     \<Rightarrow> error + (Result \<times> ScalarPercentContext \<times> string list)" where
  "evaluate self metric res out =
     and_then (prepare_ranges self res out) (\<lambda>(self', out').
     and_then (scalar_evaluate (warning self') (critical self') metric) (\<lambda>r.
     Inr (r, self', out')))"

definition performance ::
  "ScalarPercentContext \<Rightarrow> Metric \<Rightarrow> resource \<Rightarrow> string list
     \<Rightarrow> error + (Performance \<times> ScalarPercentContext \<times> string list)" where
  "performance self metric res out =
     and_then (prepare_ranges self res out) (\<lambda>(self', out').
     Inr (scalar_performance (warning self') (critical self') metric, self', out'))"

section \<open>The probes\<close>

text \<open>
  A probe connects to the device and reads the rows the API call returns; the connection
  is not modelled, and the rows are the probe's argument. A row is a dictionary, and a
  missing key or an empty reply raises. A probe is a generator; the model gives the list of
  the metrics it yields, or the exception that ends it.
\<close>

type_synonym row = "string \<rightharpoonup> val"

definition lookup :: "row \<Rightarrow> string \<Rightarrow> error + val" where
  "lookup result k = (case result k of None \<Rightarrow> Inl (KeyError k) | Some v \<Rightarrow> Inr v)"

definition first_row :: "row list \<Rightarrow> error + row" where
  "first_row results = (case results of [] \<Rightarrow> Inl IndexError | r # _ \<Rightarrow> Inr r)"

definition last_row :: "row list \<Rightarrow> error + row" where
  "last_row results = (if results = [] then Inl IndexError else Inr (last results))"

text \<open>Python's integers: a \<open>bool\<close> counts as 0 or 1, a string or \<open>None\<close> is no number.\<close>

fun as_int :: "val \<Rightarrow> int option" where
  "as_int (I n) = Some n"
| "as_int (B b) = Some (if b then 1 else 0)"
| "as_int (S s) = None"
| "as_int NoneV = None"

definition py_sub :: "val \<Rightarrow> val \<Rightarrow> error + val" where
  "py_sub a b =
     (case (as_int a, as_int b) of
        (Some x, Some y) \<Rightarrow> Inr (I (x - y))
      | _ \<Rightarrow> Inl (TypeError ''unsupported operand type(s) for -''))"

definition py_gt_zero :: "val \<Rightarrow> error + bool" where
  "py_gt_zero a =
     (case as_int a of
        Some x \<Rightarrow> Inr (0 < x)
      | None \<Rightarrow> Inl (TypeError ''> not supported between these instances''))"

subsection \<open>System memory\<close>

text \<open>
  \<open>SystemMemoryResource.probe\<close>: the first row's \<open>free-memory\<close> and \<open>total-memory\<close>;
  the total is stored in the resource before the first metric is yielded.
\<close>

definition SystemMemoryResource_probe :: "row list \<Rightarrow> error + (resource \<times> Metric list)" where
  "SystemMemoryResource_probe results =
     and_then (first_row results) (\<lambda>result.
     and_then (lookup result ''free-memory'') (\<lambda>memory_free.
     and_then (lookup result ''total-memory'') (\<lambda>total.
     and_then (py_sub total memory_free) (\<lambda>used.
     Inr ([''memory_total'' \<mapsto> total],
          [\<lparr>m_name = ''free'', m_value = memory_free, m_uom = Some ''B'',
            m_min = Some (I 0), m_max = Some total\<rparr>,
           \<lparr>m_name = ''used'', m_value = used, m_uom = Some ''B'',
            m_min = Some (I 0), m_max = Some total\<rparr>])))))"

subsection \<open>System uptime\<close>

text \<open>
  \<open>\d+\<close> followed by the literal \<open>c\<close>, matched at the start of \<open>s\<close>: the digits and
  what follows the literal. The literal is no digit, so the greedy run is the only
  candidate.
\<close>

definition digits_then :: "char \<Rightarrow> string \<Rightarrow> (string \<times> string) option" where
  "digits_then c s =
     (let ds = takeWhile is_digit s in
      if ds = [] then None
      else (case dropWhile is_digit s of
              [] \<Rightarrow> None
            | x # rest \<Rightarrow> if x = c then Some (ds, rest) else None))"

text \<open>
  \<open>re.compile(r"(?P<hours>\d+)h(?P<minutes>\d+)m(?P<seconds>\d+)s").match(s)\<close>: the
  three groups. \<open>match\<close> anchors the pattern at the start of the string only.
\<close>

definition uptime_match :: "string \<Rightarrow> (string \<times> string \<times> string) option" where
  "uptime_match s =
     (case digits_then CHR ''h'' s of
        None \<Rightarrow> None
      | Some (hours, r1) \<Rightarrow>
          (case digits_then CHR ''m'' r1 of
             None \<Rightarrow> None
           | Some (minutes, r2) \<Rightarrow>
               (case digits_then CHR ''s'' r2 of
                  None \<Rightarrow> None
                | Some (seconds, r3) \<Rightarrow> Some (hours, minutes, seconds))))"

definition parse_uptime :: "val \<Rightarrow> error + nat" where
  "parse_uptime v =
     (case v of
        S s \<Rightarrow>
          (case uptime_match s of
             None \<Rightarrow> Inl (ValueError ''Unable to parse uptime'')
           | Some (hours, minutes, seconds) \<Rightarrow>
               Inr (py_int hours * 60 * 60 + py_int minutes * 60 + py_int seconds))
      | _ \<Rightarrow> Inl (TypeError ''expected string or bytes-like object''))"

definition SystemUptimeResource_probe :: "row list \<Rightarrow> error + (resource \<times> Metric list)" where
  "SystemUptimeResource_probe results =
     and_then (first_row results) (\<lambda>result.
     and_then (lookup result ''uptime'') (\<lambda>raw.
     and_then (parse_uptime raw) (\<lambda>uptime.
     Inr (Map.empty,
          [\<lparr>m_name = ''uptime'', m_value = I (int uptime), m_uom = Some ''s'',
            m_min = Some (I 0), m_max = None\<rparr>]))))"

subsection \<open>Ping\<close>

text \<open>
  \<open>strip_time\<close>, with the pattern \<open>^(?P<time>[0-9]+)(?P<uom>.*)$\<close>: \<open>.\<close> matches no
  newline, and \<open>$\<close> matches at the end or before a newline that ends the string.
\<close>

definition strip_time :: "string \<Rightarrow> val \<times> val" where
  "strip_time s =
     (let ds = takeWhile is_digit s;
          rest = dropWhile is_digit s;
          body = (if rest \<noteq> [] \<and> last rest = CHR 0x0A then butlast rest else rest)
      in if ds \<noteq> [] \<and> CHR 0x0A \<notin> set body then (I (int (py_int ds)), S body)
         else (NoneV, NoneV))"

definition rtt_value :: "val \<Rightarrow> error + val" where
  "rtt_value v =
     (case v of
        S s \<Rightarrow> Inr (fst (strip_time s))
      | _ \<Rightarrow> Inl (TypeError ''expected string or bytes-like object''))"

definition plain_metric :: "string \<Rightarrow> val \<Rightarrow> val option \<Rightarrow> val option \<Rightarrow> Metric" where
  "plain_metric n v lo hi = \<lparr>m_name = n, m_value = v, m_uom = None, m_min = lo, m_max = hi\<rparr>"

text \<open>
  \<open>ToolPingCheck.probe\<close>: the last row of the reply; \<open>max_packages\<close> is the field
  \<open>_max_packages\<close>, which the constructor sets to 1.
\<close>

definition ToolPingCheck_probe :: "int \<Rightarrow> row list \<Rightarrow> error + Metric list" where
  "ToolPingCheck_probe max_packages results =
     and_then (last_row results) (\<lambda>result.
     and_then (lookup result ''packet-loss'') (\<lambda>packet_loss.
     and_then (lookup result ''sent'') (\<lambda>sent.
     and_then (lookup result ''received'') (\<lambda>received.
     and_then (py_gt_zero received) (\<lambda>answered.
     let first3 =
           [\<lparr>m_name = ''packet_loss'', m_value = packet_loss, m_uom = Some ''%'',
             m_min = Some (I 0), m_max = Some (I 100)\<rparr>,
            plain_metric ''sent'' sent (Some (I 0)) (Some (I max_packages)),
            plain_metric ''received'' received (Some (I 0)) (Some (I max_packages))]
     in if answered then
          and_then (lookup result ''min-rtt'') (\<lambda>min_rtt.
          and_then (rtt_value min_rtt) (\<lambda>rtt_min.
          and_then (lookup result ''max-rtt'') (\<lambda>max_rtt.
          and_then (rtt_value max_rtt) (\<lambda>rtt_max.
          and_then (lookup result ''avg-rtt'') (\<lambda>avg_rtt.
          and_then (rtt_value avg_rtt) (\<lambda>rtt_avg.
          and_then (lookup result ''size'') (\<lambda>size_v.
          and_then (lookup result ''ttl'') (\<lambda>ttl.
          Inr (first3 @
               [plain_metric ''rtt_min'' rtt_min (Some (I 0)) None,
                plain_metric ''rtt_max'' rtt_max (Some (I 0)) None,
                plain_metric ''rtt_avg'' rtt_avg (Some (I 0)) None,
                plain_metric ''size'' size_v None None,
                plain_metric ''ttl'' ttl (Some (I 0)) (Some (I 255))])))))))))
        else Inr first3)))))"

section \<open>The check and its verdict\<close>

text \<open>
  Modelled from the spec: \<open>nagiosplugin.Check\<close>, its \<open>main\<close> and the default summary are
  code of the plugin library, which is not among the sources. The definitions below follow
  sections 3, 4.4, 6 and 7 of the specification: the metrics of the probe are collected,
  each is routed to the context registered under its name (a metric with no context is
  skipped) and gives a result and a performance datum, in the order of the metrics; the
  verdict is the most severe result; the summary is built from the results designated by
  name; the exit code is 0, 1, 2 or 3.
\<close>

datatype Context =
    ScalarContext "Range option" "Range option"
  | PercentContext ScalarPercentContext

text \<open>One metric through its context: \<open>evaluate\<close>, then \<open>performance\<close>.\<close>

fun evaluate_metric ::
  "Context \<Rightarrow> Metric \<Rightarrow> resource \<Rightarrow> string list
     \<Rightarrow> error + (Result \<times> Performance \<times> Context \<times> string list)" where
  "evaluate_metric (ScalarContext w c) metric res out =
     and_then (scalar_evaluate w c metric) (\<lambda>r.
     Inr (r, scalar_performance w c metric, ScalarContext w c, out))"
| "evaluate_metric (PercentContext self) metric res out =
     and_then (evaluate self metric res out) (\<lambda>(r, self1, out1).
     and_then (performance self1 metric res out1) (\<lambda>(p, self2, out2).
     Inr (r, p, PercentContext self2, out2)))"

definition store_context :: "string \<Rightarrow> Context \<Rightarrow> (string \<times> Context) list \<Rightarrow> (string \<times> Context) list" where
  "store_context n ctx ctxs = map (\<lambda>(k, c). if k = n then (k, ctx) else (k, c)) ctxs"

fun run_metrics ::
  "(string \<times> Context) list \<Rightarrow> resource \<Rightarrow> Metric list \<Rightarrow> string list
     \<Rightarrow> error + (Result list \<times> Performance list \<times> string list)" where
  "run_metrics ctxs res [] out = Inr ([], [], out)"
| "run_metrics ctxs res (metric # ms) out =
     (case map_of ctxs (m_name metric) of
        None \<Rightarrow> run_metrics ctxs res ms out
      | Some ctx \<Rightarrow>
          and_then (evaluate_metric ctx metric res out) (\<lambda>(r, p, ctx', out1).
          and_then (run_metrics (store_context (m_name metric) ctx' ctxs) res ms out1)
            (\<lambda>(rs, ps, out2). Inr (r # rs, p # ps, out2))))"

text \<open>
  The severity order of section 3: OK below WARNING below CRITICAL, and UNKNOWN above OK
  only, so that it wins exactly when there is no WARNING and no CRITICAL.
\<close>

fun severity :: "state \<Rightarrow> nat" where
  "severity Ok = 0"
| "severity Unknown = 1"
| "severity Warn = 2"
| "severity Critical = 3"

definition worse :: "state \<Rightarrow> state \<Rightarrow> state" where
  "worse a b = (if severity a < severity b then b else a)"

definition overall :: "state list \<Rightarrow> state" where
  "overall states = foldl worse Ok states"

fun exit_code :: "state \<Rightarrow> nat" where
  "exit_code Ok = 0"
| "exit_code Warn = 1"
| "exit_code Critical = 2"
| "exit_code Unknown = 3"

text \<open>
  The text of a result is the description of its metric, which the format
  \<open>{name} is {valueunit}\<close> of the contexts gives.
\<close>

definition describe :: "Metric \<Rightarrow> string" where
  "describe metric =
     m_name metric @ '' is '' @ py_str (m_value metric) @
     (case m_uom metric of None \<Rightarrow> [] | Some u \<Rightarrow> u)"

definition result_named :: "Result list \<Rightarrow> string \<Rightarrow> error + Result" where
  "result_named results n =
     (case find (\<lambda>r. m_name (res_metric r) = n) results of
        None \<Rightarrow> Inl (KeyError n)
      | Some r \<Rightarrow> Inr r)"

fun join :: "string list \<Rightarrow> string" where
  "join [] = []"
| "join [m] = m"
| "join (m # n # ms) = m @ '' '' @ join (n # ms)"

text \<open>
  \<open>SystemMemorySummary.ok\<close>: the texts of the results named in \<open>result_names\<close>, joined
  by blanks. The source overrides \<open>ok\<close> only; following section 4.4 of the specification
  the summary of a verdict other than OK is taken from the same designated results.
\<close>

fun summary_msgs :: "string list \<Rightarrow> Result list \<Rightarrow> error + string list" where
  "summary_msgs [] results = Inr []"
| "summary_msgs (n # ns) results =
     and_then (result_named results n) (\<lambda>r.
     and_then (summary_msgs ns results) (\<lambda>msgs.
     Inr (describe (res_metric r) # msgs)))"

definition SystemMemorySummary :: "string list \<Rightarrow> Result list \<Rightarrow> error + string" where
  "SystemMemorySummary result_names results =
     and_then (summary_msgs result_names results) (\<lambda>msgs. Inr (join msgs))"

text \<open>A check with no summary of its own: every result feeds the summary.\<close>

definition default_summary :: "Result list \<Rightarrow> error + string" where
  "default_summary results = Inr (join (map (\<lambda>r. describe (res_metric r)) results))"

record outcome =
  o_status :: state
  o_summary :: string
  o_perfdata :: "Performance list"
  o_exit :: nat
  o_stdout :: "string list"

text \<open>
  \<open>check.main\<close> under \<open>nagiosplugin.guarded\<close>: an exception of the probe gives the
  verdict UNKNOWN with the message of the exception; an exception of a context or of the
  summary is not caught.
\<close>

definition check_main ::
  "(row list \<Rightarrow> error + (resource \<times> Metric list)) \<Rightarrow> (string \<times> Context) list
     \<Rightarrow> (Result list \<Rightarrow> error + string) \<Rightarrow> row list \<Rightarrow> error + outcome" where
  "check_main probe ctxs summary reply =
     (case probe reply of
        Inl e \<Rightarrow>
          Inr \<lparr>o_status = Unknown, o_summary = error_message e, o_perfdata = [],
               o_exit = exit_code Unknown, o_stdout = []\<rparr>
      | Inr (res, metrics) \<Rightarrow>
          and_then (run_metrics ctxs res metrics []) (\<lambda>(results, perfdata, out).
          and_then (summary results) (\<lambda>msg.
          let verdict = overall (map res_state results)
          in Inr \<lparr>o_status = verdict, o_summary = msg, o_perfdata = perfdata,
                  o_exit = exit_code verdict, o_stdout = out\<rparr>)))"

section \<open>The commands\<close>

text \<open>
  \<open>system.memory\<close> with its options \<open>--used/--free\<close>, \<open>--warning\<close> and \<open>--critical\<close>,
  and \<open>system.uptime\<close>, each on the reply of the device.
\<close>

definition system_memory :: "bool \<Rightarrow> string \<Rightarrow> string \<Rightarrow> row list \<Rightarrow> error + outcome" where
  "system_memory used w c reply =
     check_main SystemMemoryResource_probe
       (if used then
          [(''free'', ScalarContext None None),
           (''used'', PercentContext (new_ScalarPercentContext ''memory_total'' (Some w) (Some c)))]
        else
          [(''free'', PercentContext
              (new_ScalarPercentContext ''memory_total'' (Some (w @ '':'')) (Some (c @ '':'')))),
           (''used'', ScalarContext None None)])
       (SystemMemorySummary (if used then [''used''] else [''free'']))
       reply"

definition system_uptime :: "row list \<Rightarrow> error + outcome" where
  "system_uptime reply =
     check_main SystemUptimeResource_probe [(''uptime'', ScalarContext None None)]
       default_summary reply"

section \<open>Properties\<close>

subsection \<open>Auxiliary facts\<close>

lemma and_then_Inr: "and_then (Inr x) f = f x"
  by (simp add: and_then_def)

lemma and_then_Inl: "and_then (Inl e) f = Inl e"
  by (simp add: and_then_def)

subsection \<open>The memory probe\<close>

text \<open>
  C10. For every reply of the device whose first row has the integer fields
  \<open>free-memory\<close> and \<open>total-memory\<close>, the memory probe yields exactly two metrics,
  \<open>free\<close> first and then \<open>used\<close>, where used is the total minus the free memory; both
  carry the unit \<open>B\<close>, the minimum 0 and the total as maximum, and the two values add up
  to the total. The probe also stores the total in the resource.
\<close>

theorem memory_probe_free_then_used:
  assumes "result ''free-memory'' = Some (I free)"
    and "result ''total-memory'' = Some (I total_memory)"
  shows "\<exists>used.
           SystemMemoryResource_probe (result # others) =
             Inr ([''memory_total'' \<mapsto> I total_memory],
                  [\<lparr>m_name = ''free'', m_value = I free, m_uom = Some ''B'',
                    m_min = Some (I 0), m_max = Some (I total_memory)\<rparr>,
                   \<lparr>m_name = ''used'', m_value = I used, m_uom = Some ''B'',
                    m_min = Some (I 0), m_max = Some (I total_memory)\<rparr>])
           \<and> used = total_memory - free \<and> free + used = total_memory"
  using assms
  by (simp add: SystemMemoryResource_probe_def first_row_def lookup_def py_sub_def
      and_then_Inr)

theorem memory_probe_free_then_used_witness:
  "SystemMemoryResource_probe
     [[''free-memory'' \<mapsto> I 200000000, ''total-memory'' \<mapsto> I 1000000000]] =
   Inr ([''memory_total'' \<mapsto> I 1000000000],
        [\<lparr>m_name = ''free'', m_value = I 200000000, m_uom = Some ''B'',
          m_min = Some (I 0), m_max = Some (I 1000000000)\<rparr>,
         \<lparr>m_name = ''used'', m_value = I 800000000, m_uom = Some ''B'',
          m_min = Some (I 0), m_max = Some (I 1000000000)\<rparr>])"
  using memory_probe_free_then_used
    [of "[''free-memory'' \<mapsto> I 200000000, ''total-memory'' \<mapsto> I 1000000000]"
        200000000 1000000000 "[]"]
  by simp

subsection \<open>The ping probe\<close>

text \<open>
  C9. For every reply to the ping whose last row has the fields \<open>packet-loss\<close> and
  \<open>sent\<close> and has \<open>received = 0\<close>, the probe yields exactly the metrics
  \<open>packet_loss\<close>, \<open>sent\<close> and \<open>received\<close>, in this order, and no other; it returns
  without an exception, whatever the row holds (or lacks) under the round-trip, size and
  TTL keys.
\<close>

theorem ping_without_answer_three_metrics:
  assumes "results \<noteq> []"
    and "last results ''packet-loss'' = Some packet_loss"
    and "last results ''sent'' = Some sent"
    and "last results ''received'' = Some (I 0)"
  shows "ToolPingCheck_probe max_packages results =
           Inr [\<lparr>m_name = ''packet_loss'', m_value = packet_loss, m_uom = Some ''%'',
                 m_min = Some (I 0), m_max = Some (I 100)\<rparr>,
                \<lparr>m_name = ''sent'', m_value = sent, m_uom = None,
                 m_min = Some (I 0), m_max = Some (I max_packages)\<rparr>,
                \<lparr>m_name = ''received'', m_value = I 0, m_uom = None,
                 m_min = Some (I 0), m_max = Some (I max_packages)\<rparr>]"
  using assms
  by (simp add: ToolPingCheck_probe_def last_row_def lookup_def py_gt_zero_def
      plain_metric_def and_then_Inr)

theorem ping_without_answer_three_metrics_witness:
  "ToolPingCheck_probe 1
     [[''packet-loss'' \<mapsto> I 100, ''sent'' \<mapsto> I 1, ''received'' \<mapsto> I 0]] =
   Inr [\<lparr>m_name = ''packet_loss'', m_value = I 100, m_uom = Some ''%'',
         m_min = Some (I 0), m_max = Some (I 100)\<rparr>,
        \<lparr>m_name = ''sent'', m_value = I 1, m_uom = None,
         m_min = Some (I 0), m_max = Some (I 1)\<rparr>,
        \<lparr>m_name = ''received'', m_value = I 0, m_uom = None,
         m_min = Some (I 0), m_max = Some (I 1)\<rparr>]"
  using ping_without_answer_three_metrics
    [of "[[''packet-loss'' \<mapsto> I 100, ''sent'' \<mapsto> I 1, ''received'' \<mapsto> I 0]]"
        "I 100" "I 1" 1]
  by simp

end
